theory Spec2Isabelle
  imports Complex_Main "HOL-Library.Sublist"
begin

section \<open>Python values the renderer module works with\<close>

text \<open>
  The module \<^verbatim>\<open>renderers/Cycles.py\<close> builds scene-description text with
  \<^verbatim>\<open>str.format\<close> and starts the renderer with \<^verbatim>\<open>os.system\<close>.
  Python integers are unbounded: they are \<^typ>\<open>int\<close>, and \<^verbatim>\<open>str\<close> of an
  integer is its decimal notation.
\<close>

definition digit_char :: "nat \<Rightarrow> char" where
  "digit_char d = ''0123456789'' ! d"

fun str_nat :: "nat \<Rightarrow> string" where
  "str_nat n = (if n < 10 then [digit_char n] else str_nat (n div 10) @ [digit_char (n mod 10)])"

declare str_nat.simps [simp del]

definition str_int :: "int \<Rightarrow> string" where
  "str_int i = (if i < 0 then CHR ''-'' # str_nat (nat (- i)) else str_nat (nat i))"

text \<open>
  Failures are values: every function that can raise returns \<open>py_error + result\<close>,
  \<open>Inl\<close> being the exception.
\<close>

datatype py_error = IndexError | KeyError | AttributeError | TypeError | ValueError

text \<open>
  \<^verbatim>\<open>App.Vector\<close> of the host application has the attributes \<^verbatim>\<open>x\<close>,
  \<^verbatim>\<open>y\<close>, \<^verbatim>\<open>z\<close>. The number type \<open>'a\<close> stands for Python's \<^verbatim>\<open>float\<close>;
  its arithmetic is the type's own, and its \<^verbatim>\<open>str\<close> is a parameter \<open>fstr\<close> of
  every formatter below.
\<close>

datatype 'a vector = Vector (vx: 'a) (vy: 'a) (vz: 'a)

datatype 'a number = PInt int | PFloat 'a

datatype 'a pyval = PStr string | PNum "'a number" | PVector "'a vector" | PTuple "'a number list"

text \<open>\<^verbatim>\<open>sep.join(xs)\<close>\<close>

fun join :: "string \<Rightarrow> string list \<Rightarrow> string" where
  "join sep [] = []"
| "join sep [s] = s"
| "join sep (s # t # ss) = s @ sep @ join sep (t # ss)"

fun str_number :: "('a \<Rightarrow> string) \<Rightarrow> 'a number \<Rightarrow> string" where
  "str_number fstr (PInt i) = str_int i"
| "str_number fstr (PFloat x) = fstr x"

text \<open>\<^verbatim>\<open>format(v, "")\<close>, which is \<^verbatim>\<open>str(v)\<close> for these values.\<close>

fun py_str :: "('a \<Rightarrow> string) \<Rightarrow> 'a pyval \<Rightarrow> string" where
  "py_str fstr (PStr s) = s"
| "py_str fstr (PNum n) = str_number fstr n"
| "py_str fstr (PVector v) =
     ''Vector ('' @ fstr (vx v) @ '', '' @ fstr (vy v) @ '', '' @ fstr (vz v) @ '')''"
| "py_str fstr (PTuple ns) =
     (case ns of
        [n] \<Rightarrow> ''('' @ str_number fstr n @ '',)''
      | _ \<Rightarrow> ''('' @ join '', '' (map (str_number fstr) ns) @ '')'')"

section \<open>\<^verbatim>\<open>str.format\<close>\<close>

text \<open>
  The fragment of \<^verbatim>\<open>str.format\<close> the module uses: literal text, the escapes
  \<^verbatim>\<open>{{\<close> and \<^verbatim>\<open>}}\<close>, and replacement fields \<^verbatim>\<open>{name}\<close>,
  \<^verbatim>\<open>{0}\<close>, \<^verbatim>\<open>{}\<close> followed by any chain of \<^verbatim>\<open>.attr\<close> and
  \<^verbatim>\<open>[index]\<close>. No field of the module carries a conversion or a format
  specification. Positional arguments beyond those a template names are ignored, as
  Python ignores them; a missing one is an \<^verbatim>\<open>IndexError\<close>.
\<close>

definition is_digit :: "char \<Rightarrow> bool" where
  "is_digit c = (c \<in> set ''0123456789'')"

definition digit_val :: "char \<Rightarrow> nat" where
  "digit_val c = of_char c - 48"

definition nat_of_digits :: "string \<Rightarrow> nat" where
  "nat_of_digits ds = foldl (\<lambda>n c. 10 * n + digit_val c) 0 ds"

text \<open>
  Of the attributes of a vector only \<^verbatim>\<open>x\<close>, \<^verbatim>\<open>y\<close> and \<^verbatim>\<open>z\<close> are
  modelled, the ones the templates read; a tuple is indexed by a decimal position.
\<close>

definition getattr :: "'a pyval \<Rightarrow> string \<Rightarrow> py_error + 'a pyval" where
  "getattr v name =
     (case v of
        PVector u \<Rightarrow>
          (if name = ''x'' then Inr (PNum (PFloat (vx u)))
           else if name = ''y'' then Inr (PNum (PFloat (vy u)))
           else if name = ''z'' then Inr (PNum (PFloat (vz u)))
           else Inl AttributeError)
      | _ \<Rightarrow> Inl AttributeError)"

definition getitem :: "'a pyval \<Rightarrow> string \<Rightarrow> py_error + 'a pyval" where
  "getitem v key =
     (case v of
        PTuple ns \<Rightarrow>
          (if key \<noteq> [] \<and> list_all is_digit key then
             (if nat_of_digits key < length ns then Inr (PNum (ns ! nat_of_digits key))
              else Inl IndexError)
           else Inl TypeError)
      | _ \<Rightarrow> Inl TypeError)"

function accessors :: "'a pyval \<Rightarrow> string \<Rightarrow> py_error + 'a pyval" where
  "accessors v [] = Inr v"
| "accessors v (c # cs) =
     (if c = CHR ''.'' then
        (case getattr v (takeWhile (\<lambda>d. d \<noteq> CHR ''.'' \<and> d \<noteq> CHR ''['') cs) of
           Inl e \<Rightarrow> Inl e
         | Inr u \<Rightarrow> accessors u (dropWhile (\<lambda>d. d \<noteq> CHR ''.'' \<and> d \<noteq> CHR ''['') cs))
      else if c = CHR ''['' then
        (case dropWhile (\<lambda>d. d \<noteq> CHR '']'') cs of
           [] \<Rightarrow> Inl ValueError
         | _ # rest \<Rightarrow>
             (case getitem v (takeWhile (\<lambda>d. d \<noteq> CHR '']'') cs) of
                Inl e \<Rightarrow> Inl e
              | Inr u \<Rightarrow> accessors u rest))
      else Inl ValueError)"
  by pat_completeness auto
termination
proof (relation "measure (\<lambda>(v, s). length s)")
  show "wf (measure (\<lambda>(v::'a pyval, s::string). length s))" by simp
next
  fix v :: "'a pyval" and c cs u
  show "((u, dropWhile (\<lambda>d. d \<noteq> CHR ''.'' \<and> d \<noteq> CHR ''['') cs), (v, c # cs))
          \<in> measure (\<lambda>(v, s). length s)"
    by (simp add: length_dropWhile_le le_imp_less_Suc)
next
  fix v :: "'a pyval" and c cs x21 x22 u
  assume "dropWhile (\<lambda>d. d \<noteq> CHR '']'') cs = x21 # x22"
  then have "length x22 < length (dropWhile (\<lambda>d. d \<noteq> CHR '']'') cs)" by simp
  also have "\<dots> \<le> length cs" by (rule length_dropWhile_le)
  finally show "((u, x22), (v, c # cs)) \<in> measure (\<lambda>(v, s). length s)" by simp
qed

text \<open>
  Python refuses a template that mixes automatic numbering (\<^verbatim>\<open>{}\<close>) with
  explicit positions (\<^verbatim>\<open>{0}\<close>); the scanner carries which of the two it has seen.
\<close>

datatype numbering = Unset | Auto nat | Manual

definition positional :: "'a pyval list \<Rightarrow> nat \<Rightarrow> py_error + 'a pyval" where
  "positional args k = (if k < length args then Inr (args ! k) else Inl IndexError)"

definition get_field ::
  "'a pyval list \<Rightarrow> (string \<times> 'a pyval) list \<Rightarrow> numbering \<Rightarrow> string
     \<Rightarrow> py_error + ('a pyval \<times> numbering)" where
  "get_field args kwargs num field =
     (let first = takeWhile (\<lambda>d. d \<noteq> CHR ''.'' \<and> d \<noteq> CHR ''['') field;
          rest = dropWhile (\<lambda>d. d \<noteq> CHR ''.'' \<and> d \<noteq> CHR ''['') field
      in case
           (if first = [] then
              (case num of
                 Manual \<Rightarrow> Inl ValueError
               | Unset \<Rightarrow> map_sum id (\<lambda>v. (v, Auto 1)) (positional args 0)
               | Auto k \<Rightarrow> map_sum id (\<lambda>v. (v, Auto (Suc k))) (positional args k))
            else if list_all is_digit first then
              (case num of
                 Auto k \<Rightarrow> Inl ValueError
               | _ \<Rightarrow> map_sum id (\<lambda>v. (v, Manual)) (positional args (nat_of_digits first)))
            else
              (case map_of kwargs first of
                 None \<Rightarrow> Inl KeyError
               | Some v \<Rightarrow> Inr (v, num)))
         of Inl e \<Rightarrow> Inl e
          | Inr (v, num') \<Rightarrow> map_sum id (\<lambda>u. (u, num')) (accessors v rest))"

fun fmt_scan ::
  "('a \<Rightarrow> string) \<Rightarrow> 'a pyval list \<Rightarrow> (string \<times> 'a pyval) list \<Rightarrow> numbering \<Rightarrow> string
     \<Rightarrow> py_error + string"
and fmt_field ::
  "('a \<Rightarrow> string) \<Rightarrow> 'a pyval list \<Rightarrow> (string \<times> 'a pyval) list \<Rightarrow> numbering \<Rightarrow> string
     \<Rightarrow> string \<Rightarrow> py_error + string" where
  "fmt_scan fstr args kwargs num [] = Inr []"
| "fmt_scan fstr args kwargs num (c # cs) =
     (if c = CHR ''{'' then
        (case cs of
           d # ds \<Rightarrow>
             (if d = CHR ''{'' then map_sum id ((#) CHR ''{'') (fmt_scan fstr args kwargs num ds)
              else fmt_field fstr args kwargs num [] cs)
         | [] \<Rightarrow> Inl ValueError)
      else if c = CHR ''}'' then
        (case cs of
           d # ds \<Rightarrow>
             (if d = CHR ''}'' then map_sum id ((#) CHR ''}'') (fmt_scan fstr args kwargs num ds)
              else Inl ValueError)
         | [] \<Rightarrow> Inl ValueError)
      else map_sum id ((#) c) (fmt_scan fstr args kwargs num cs))"
| "fmt_field fstr args kwargs num acc [] = Inl ValueError"
| "fmt_field fstr args kwargs num acc (c # cs) =
     (if c = CHR ''}'' then
        (case get_field args kwargs num (rev acc) of
           Inl e \<Rightarrow> Inl e
         | Inr (v, num') \<Rightarrow>
             map_sum id ((@) (py_str fstr v)) (fmt_scan fstr args kwargs num' cs))
      else fmt_field fstr args kwargs num (c # acc) cs)"

text \<open>\<^verbatim>\<open>template.format(*args, **kwargs)\<close>\<close>

definition format_py ::
  "('a \<Rightarrow> string) \<Rightarrow> string \<Rightarrow> 'a pyval list \<Rightarrow> (string \<times> 'a pyval) list
     \<Rightarrow> py_error + string" where
  "format_py fstr template args kwargs = fmt_scan fstr args kwargs Unset template"

text \<open>
  A list comprehension \<^verbatim>\<open>[f(x) for x in xs]\<close> whose body can raise: the first
  failure ends it.
\<close>

fun list_comp :: "('x \<Rightarrow> py_error + 'y) \<Rightarrow> 'x list \<Rightarrow> py_error + 'y list" where
  "list_comp f [] = Inr []"
| "list_comp f (x # xs) =
     (case f x of
        Inl e \<Rightarrow> Inl e
      | Inr y \<Rightarrow> (case list_comp f xs of Inl e \<Rightarrow> Inl e | Inr ys \<Rightarrow> Inr (y # ys)))"

section \<open>The scene formatters of \<^verbatim>\<open>renderers/Cycles.py\<close>\<close>

text \<open>
  The objects the host hands over, with the attributes the module reads. A rotation
  has an angle in radians and an axis; what \<^verbatim>\<open>Rotation.multVec\<close> computes is the
  host's, so \<^verbatim>\<open>write_arealight\<close> takes it as the parameter \<open>multVec\<close> and is
  generic in the type of rotations. \<^verbatim>\<open>Vector.cross\<close> is the cross product.
\<close>

record 'a rotation =
  Angle :: 'a
  Axis :: "'a vector"

record ('a, 'r) placement =
  Base :: "'a vector"
  Rotation :: 'r

record view_object =
  Name :: string

record 'a mesh =
  Topology :: "'a vector list \<times> int list list"

definition cross :: "'a::{times,minus} vector \<Rightarrow> 'a vector \<Rightarrow> 'a vector" where
  "cross a b =
     Vector (vy a * vz b - vz a * vy b) (vz a * vx b - vx a * vz b) (vx a * vy b - vy a * vx b)"

text \<open>\<^verbatim>\<open>math.degrees\<close>, over the real numbers.\<close>

definition degrees :: "real \<Rightarrow> real" where
  "degrees x = x * (180 / pi)"

definition write_camera ::
  "(real \<Rightarrow> string) \<Rightarrow> real vector \<Rightarrow> real rotation \<Rightarrow> real vector \<Rightarrow> real vector \<Rightarrow> string
     \<Rightarrow> py_error + string" where
  \<open>write_camera fstr pos rot updir target name =
    (let snippet = ''
    <!-- Generated by FreeCAD - Camera '{n}' -->
    <transform rotate="{a} {r.x} {r.y} {r.z}"
               translate="{p.x} {p.y} {p.z}"
               scale="1 1 -1">
        <camera type="perspective"/>
    </transform>''
     in format_py fstr snippet []
          [(''n'', PStr name),
           (''a'', PNum (PFloat (degrees (Angle rot)))),
           (''r'', PVector (Axis rot)),
           (''p'', PVector pos)])\<close>

definition write_object ::
  "('a::{one,ord} \<Rightarrow> string) \<Rightarrow> view_object \<Rightarrow> 'a mesh \<Rightarrow> 'a list \<Rightarrow> 'a \<Rightarrow> py_error + string" where
  \<open>write_object fstr viewobj mesh color alpha =
    (let snippet1 = ''
    <!-- Generated by FreeCAD - Object '{n}' -->
    <shader name="{n}_mat">
        <diffuse_bsdf name="{n}_bsdf" color="{c[0]}, {c[1]}, {c[2]}"/>'';
         snippet2a = ''
        <transparent_bsdf name="{n}_trans" color="1.0, 1.0, 1.0"/>
        <mix_closure name="{n}_mix" fac="{a}"/>
        <connect from="{n}_trans bsdf"  to="{n}_mix closure1"/>
        <connect from="{n}_bsdf bsdf"   to="{n}_mix closure2"/>
        <connect from="{n}_mix closure" to="output surface"/>
    </shader>'';
         snippet2b = ''
        <connect from="{n}_bsdf bsdf"   to="output surface"/>
    </shader>'';
         snippet3 = ''
    <state shader="{n}_mat">
        <mesh P="{p}"
              nverts="{i}"
              verts="{v}"/>
    </state>\<newline>'';
         snippet = snippet1 @ (if alpha < 1 then snippet2a else snippet2b) @ snippet3
     in case list_comp (\<lambda>p. format_py fstr ''{0.x} {0.y} {0.z}'' [PVector p] [])
               (fst (Topology mesh)) of
          Inl e \<Rightarrow> Inl e
        | Inr points \<Rightarrow>
       (case list_comp (\<lambda>v. format_py fstr ''{} {} {}'' (map (\<lambda>i. PNum (PInt i)) v) [])
               (snd (Topology mesh)) of
          Inl e \<Rightarrow> Inl e
        | Inr verts \<Rightarrow>
            (let nverts = replicate (length verts) ''3''
             in format_py fstr snippet []
                  [(''n'', PStr (Name viewobj)),
                   (''c'', PTuple (map PFloat color)),
                   (''a'', PNum (PFloat alpha)),
                   (''p'', PStr (join ''  '' points)),
                   (''i'', PStr (join ''  '' nverts)),
                   (''v'', PStr (join ''  '' verts))])))\<close>

definition write_pointlight ::
  "('a::{times,numeral} \<Rightarrow> string) \<Rightarrow> view_object \<Rightarrow> 'a vector \<Rightarrow> 'a list \<Rightarrow> 'a
     \<Rightarrow> py_error + string" where
  \<open>write_pointlight fstr view location color power' =
    (let snippet = ''
    <!-- Generated by FreeCAD - Pointlight '{n}' -->
    <shader name="{n}_shader">
        <emission name="{n}_emit"
                  color="{c[0]} {c[1]} {c[2]}"
                  strength="{s}"/>
        <connect from="{n}_emit emission"
                 to="output surface"/>
    </shader>
    <state shader="{n}_shader">
        <light type="point"
               co="{p.x} {p.y} {p.z}"
               strength="1 1 1"/>
    </state>\<newline>''
     in format_py fstr snippet []
          [(''n'', PStr (Name view)),
           (''c'', PTuple (map PFloat color)),
           (''p'', PVector location),
           (''s'', PNum (PFloat (power' * 100)))])\<close>

definition write_arealight ::
  "('a::{times,minus,zero,numeral} \<Rightarrow> string) \<Rightarrow> ('r \<Rightarrow> 'a vector \<Rightarrow> 'a vector) \<Rightarrow> string
     \<Rightarrow> ('a, 'r) placement \<Rightarrow> 'a \<Rightarrow> 'a \<Rightarrow> 'a list \<Rightarrow> 'a \<Rightarrow> py_error + string" where
  \<open>write_arealight fstr multVec name pos size_u size_v color power' =
    (let rot = Rotation pos;
         axis1 = multVec rot (Vector 1 0 0);
         axis2 = multVec rot (Vector 0 1 0);
         direction = cross axis1 axis2;
         snippet = ''
    <!-- Generated by FreeCAD - Area light '{n}' -->
    <shader name="{n}_shader">
        <emission name="{n}_emit"
                  color="{c[0]} {c[1]} {c[2]}"
                  strength="{s}"/>
        <connect from="{n}_emit emission"
                 to="output surface"/>
    </shader>
    <state shader="{n}_shader">
        <light type="area"
               co="{p.x} {p.y} {p.z}"
               strength="1 1 1"
               axisu="{u.x} {u.y} {u.z}"
               axisv="{v.x} {v.y} {v.z}"
               sizeu="{a}"
               sizev="{b}"
               size="1"
               dir="{d.x} {d.y} {d.z}" />
    </state>\<newline>''
     in format_py fstr snippet []
          [(''n'', PStr name),
           (''c'', PTuple (map PFloat color)),
           (''p'', PVector (Base pos)),
           (''s'', PNum (PFloat (power' * 100))),
           (''u'', PVector axis1),
           (''v'', PVector axis2),
           (''a'', PNum (PFloat size_u)),
           (''b'', PNum (PFloat size_v)),
           (''d'', PVector direction)])\<close>

section \<open>The host application as seen by \<^verbatim>\<open>render\<close>\<close>

text \<open>
  \<^verbatim>\<open>render\<close> reads the preferences of the host application, writes to its
  console and starts an operating-system process. The state it touches is a record:
  the parameter groups (by path, each a map from key to string), the console output so
  far, the commands handed to \<^verbatim>\<open>os.system\<close> so far, and the exit status the
  operating system answers for a command.
\<close>

datatype console_msg = PrintError string | PrintMessage string

record world =
  param_groups :: "string \<Rightarrow> (string \<rightharpoonup> string)"
  console :: "console_msg list"
  spawned :: "string list"
  exit_status :: "string \<Rightarrow> int"

record project =
  PageResult :: string

definition ParamGet :: "world \<Rightarrow> string \<Rightarrow> (string \<rightharpoonup> string)" where
  "ParamGet w path = param_groups w path"

definition GetString :: "(string \<rightharpoonup> string) \<Rightarrow> string \<Rightarrow> string \<Rightarrow> string" where
  "GetString params key dflt = (case params key of None \<Rightarrow> dflt | Some v \<Rightarrow> v)"

definition Console_PrintError :: "world \<Rightarrow> string \<Rightarrow> world" where
  "Console_PrintError w msg = w\<lparr>console := console w @ [PrintError msg]\<rparr>"

definition Console_PrintMessage :: "world \<Rightarrow> string \<Rightarrow> world" where
  "Console_PrintMessage w msg = w\<lparr>console := console w @ [PrintMessage msg]\<rparr>"

definition os_system :: "world \<Rightarrow> string \<Rightarrow> int \<times> world" where
  "os_system w cmd = (exit_status w cmd, w\<lparr>spawned := spawned w @ [cmd]\<rparr>)"

text \<open>
  \<^verbatim>\<open>render(project, prefix, external, output, width, height)\<close>, statement by
  statement. The parameter \<^verbatim>\<open>prefix\<close> is rebound from the preferences on the
  second line of the body (it is written \<open>prefix'\<close> here, \<open>prefix\<close> being the
  list-prefix relation of the library); the value of \<^verbatim>\<open>os.system\<close> is dropped.
\<close>

definition render ::
  "world \<Rightarrow> project \<Rightarrow> string \<Rightarrow> bool \<Rightarrow> string \<Rightarrow> int \<Rightarrow> int \<Rightarrow> string \<times> world" where
  "render w project prefix' external output width height =
    (let params = ParamGet w ''User parameter:BaseApp/Preferences/Mod/Render'';
         prefix' = GetString params ''Prefix'' '''';
         prefix' = (if prefix' \<noteq> [] then prefix' @ '' '' else prefix');
         rpath = GetString params ''CyclesPath'' '''';
         args = GetString params ''CyclesParameters'' '''';
         args = args @ '' --output '' @ output;
         args = (if \<not> external then args @ '' --background'' else args)
     in if rpath = [] then
          ('''', Console_PrintError w
             (''Unable to locate renderer executable. '' @
              ''Please set the correct path in '' @
              ''Edit -> Preferences -> Render''))
        else
          (let args = args @ '' --width '' @ str_int width;
               args = args @ '' --height '' @ str_int height;
               cmd = prefix' @ rpath @ '' '' @ args @ '' '' @ PageResult project;
               w = Console_PrintMessage w (cmd @ ''\<newline>'');
               (status, w) = os_system w cmd
           in (output, w)))"

text \<open>
  The command line as the specification words it: the tokens in their order, separated
  by single spaces. The prefix token is present when the \<^verbatim>\<open>Prefix\<close> preference is
  not empty, \<^verbatim>\<open>--background\<close> when \<^verbatim>\<open>external\<close> is false.
\<close>

definition spec_command_line ::
  "string \<Rightarrow> string \<Rightarrow> string \<Rightarrow> bool \<Rightarrow> string \<Rightarrow> int \<Rightarrow> int \<Rightarrow> string \<Rightarrow> string" where
  "spec_command_line pfx rpath cparams external output width height scene =
     join '' ''
       ((if pfx = [] then [] else [pfx]) @
        [rpath, cparams, ''--output'', output] @
        (if external then [] else [''--background'']) @
        [''--width'', str_int width, ''--height'', str_int height, scene])"

text \<open>The parameter group \<^verbatim>\<open>render\<close> reads.\<close>

definition render_prefs :: "world \<Rightarrow> (string \<rightharpoonup> string)" where
  "render_prefs w = ParamGet w ''User parameter:BaseApp/Preferences/Mod/Render''"

text \<open>
  Two states of the host to run \<^verbatim>\<open>render\<close> in: one with no preference set,
  one with a renderer configured and an operating system that reports failure.
\<close>

definition no_prefs_world :: world where
  "no_prefs_world =
     \<lparr>param_groups = (\<lambda>path. Map.empty), console = [], spawned = [], exit_status = (\<lambda>cmd. 0)\<rparr>"

definition cycles_world :: world where
  "cycles_world =
     \<lparr>param_groups = (\<lambda>path.
        if path = ''User parameter:BaseApp/Preferences/Mod/Render''
        then [''Prefix'' \<mapsto> ''nice'', ''CyclesPath'' \<mapsto> ''/usr/bin/cycles'',
              ''CyclesParameters'' \<mapsto> ''--samples 10'']
        else Map.empty),
      console = [], spawned = [], exit_status = (\<lambda>cmd. 1)\<rparr>"


section \<open>Reading the scene text\<close>

text \<open>
  The number of occurrences of a pattern in a text: the positions at which the pattern
  is a prefix of the rest. An element of the scene description is counted by its opening
  text, for instance \<^verbatim>\<open><mix_closure\<close>.
\<close>

fun count_sub :: "'a list \<Rightarrow> 'a list \<Rightarrow> nat" where
  "count_sub pat [] = (if pat = [] then 1 else 0)"
| "count_sub pat (x # xs) = (if prefix pat (x # xs) then 1 else 0) + count_sub pat xs"

text \<open>
  What the two list comprehensions of \<^verbatim>\<open>write_object\<close> write for a vertex and
  for a face: the three coordinates, and the first three indices of the face.
\<close>

definition vec_text :: "('a \<Rightarrow> string) \<Rightarrow> 'a vector \<Rightarrow> string" where
  "vec_text fstr v = fstr (vx v) @ '' '' @ fstr (vy v) @ '' '' @ fstr (vz v)"

definition face_text :: "int list \<Rightarrow> string" where
  "face_text v = str_int (v ! 0) @ '' '' @ str_int (v ! 1) @ '' '' @ str_int (v ! 2)"

section \<open>Sample inputs\<close>

text \<open>
  A number formatter to run the formatters with: it prints a multiple of one tenth the
  way Python prints that float (\<^verbatim>\<open>0.5\<close>, \<^verbatim>\<open>1.0\<close>, \<^verbatim>\<open>90.0\<close>), and rounds
  any other number down to one.
\<close>

definition str_tenths :: "real \<Rightarrow> string" where
  "str_tenths x =
     (let t = \<lfloor>x * 10\<rfloor>
      in (if t < 0 then ''-'' else []) @
         str_nat (nat \<bar>t\<bar> div 10) @ ''.'' @ str_nat (nat \<bar>t\<bar> mod 10))"

text \<open>
  A rotation given by what it does to a vector: the quarter turn about the Z axis. And
  the vertices of the triangle of the mesh example.
\<close>

definition quarter_turn_z :: "real vector \<Rightarrow> real vector" where
  "quarter_turn_z v = Vector (- vy v) (vx v) (vz v)"

definition triangle :: "'a::{zero,one} vector list" where
  "triangle = [Vector 0 0 0, Vector 1 0 0, Vector 0 1 0]"

section \<open>Evaluating the formatters\<close>

subsection \<open>Counting over a text given in pieces\<close>

lemma count_sub_skip:
  "p \<notin> set xs \<Longrightarrow> count_sub (p # ps) (xs @ ys) = count_sub (p # ps) ys"
  by (induction xs) auto

lemma count_sub_concat_Nil: "count_sub (p # ps) (concat []) = 0"
  by simp

lemma count_sub_concat_skip:
  "p \<notin> set xs \<Longrightarrow> count_sub (p # ps) (concat (xs # xss)) = count_sub (p # ps) (concat xss)"
  by (simp add: count_sub_skip)

lemma count_sub_concat_hit:
  "p \<notin> set xs \<Longrightarrow>
   count_sub (p # ps) (concat ((p # xs) # xss)) =
     (if prefix ps (xs @ concat xss) then 1 else 0) + count_sub (p # ps) (concat xss)"
  by (simp add: count_sub_skip)

lemma prefix_concat_Cons:
  "prefix ps (concat (xs # xss)) = prefix ps (xs @ concat xss)"
  by simp

lemmas count_rules = count_sub_concat_Nil count_sub_concat_skip count_sub_concat_hit
  prefix_concat_Cons

subsection \<open>The two comprehensions of \<^verbatim>\<open>write_object\<close>\<close>

lemmas fmt_defs = format_py_def get_field_def getattr_def getitem_def is_digit_def
  positional_def nat_of_digits_def digit_val_def

lemma format_point:
  "format_py fstr ''{0.x} {0.y} {0.z}'' [PVector p] [] = Inr (vec_text fstr p)"
  by (simp add: fmt_defs vec_text_def)

lemma format_face:
  "format_py fstr ''{} {} {}'' (map (\<lambda>i. PNum (PInt i)) v) [] =
     (if 3 \<le> length v then Inr (face_text v) else Inl IndexError)"
proof -
  consider "v = []" | a where "v = [a]" | a b where "v = [a, b]"
    | a b c rest where "v = a # b # c # rest"
    by (cases v; cases "tl v"; cases "tl (tl v)") auto
  then show ?thesis
    by cases (simp_all add: fmt_defs face_text_def)
qed

lemma list_comp_Inr:
  "(\<And>x. x \<in> set xs \<Longrightarrow> f x = Inr (g x)) \<Longrightarrow> list_comp f xs = Inr (map g xs)"
  by (induction xs) simp_all

lemma list_comp_Inl:
  "\<lbrakk>x \<in> set xs; f x = Inl e; \<And>y. y \<in> set xs \<Longrightarrow> f y = Inl e \<or> (\<exists>z. f y = Inr z)\<rbrakk>
     \<Longrightarrow> list_comp f xs = Inl e"
proof (induction xs)
  case Nil
  then show ?case by simp
next
  case (Cons y ys)
  show ?case
  proof (cases "f y")
    case (Inl e')
    with Cons.prems(3) [of y] show ?thesis by auto
  next
    case (Inr z)
    with Cons.prems have "x \<in> set ys" by auto
    with Cons.IH Cons.prems have "list_comp f ys = Inl e" by auto
    with Inr show ?thesis by simp
  qed
qed

lemma points_comp:
  "list_comp (\<lambda>p. format_py fstr ''{0.x} {0.y} {0.z}'' [PVector p] []) ps
     = Inr (map (vec_text fstr) ps)"
  by (rule list_comp_Inr) (rule format_point)

lemma faces_comp:
  "list_comp (\<lambda>v. format_py fstr ''{} {} {}'' (map (\<lambda>i. PNum (PInt i)) v) []) fs
     = (if list_all (\<lambda>v. 3 \<le> length v) fs then Inr (map face_text fs) else Inl IndexError)"
proof (cases "list_all (\<lambda>v. 3 \<le> length v) fs")
  case True
  then have "list_comp (\<lambda>v. format_py fstr ''{} {} {}'' (map (\<lambda>i. PNum (PInt i)) v) []) fs
               = Inr (map face_text fs)"
    by (intro list_comp_Inr) (simp add: format_face list_all_iff)
  with True show ?thesis by simp
next
  case False
  then obtain v where v: "v \<in> set fs" "\<not> 3 \<le> length v"
    by (auto simp: list_all_iff)
  have "list_comp (\<lambda>v. format_py fstr ''{} {} {}'' (map (\<lambda>i. PNum (PInt i)) v) []) fs
          = Inl IndexError"
    by (rule list_comp_Inl [OF v(1)]) (use v(2) in \<open>simp_all add: format_face\<close>)
  with False show ?thesis by simp
qed

subsection \<open>The text each formatter returns\<close>

text \<open>
  Each template, run through \<open>format_py\<close>, gives the text below: the literal pieces
  of the template (cut before every \<^verbatim>\<open><\<close>) with the formatted values between
  them.
\<close>

lemma write_object_text_mix:
  fixes fstr :: "'a::{one,ord} \<Rightarrow> string"
  assumes "alpha < 1" and "list_all (\<lambda>v. 3 \<le> length v) (snd (Topology mesh))"
  shows \<open>write_object fstr viewobj mesh (c0 # c1 # c2 # cs) alpha = Inr (concat
        [''\<newline>    '', ''<!-- Generated by FreeCAD - Object '', [CHR 0x27],
         Name viewobj, ''' -->\<newline>    '', ''<shader name="'', Name viewobj,
         ''_mat">\<newline>        '', ''<diffuse_bsdf name="'', Name viewobj,
         ''_bsdf" color="'', fstr c0, '', '', fstr c1, '', '', fstr c2,
         ''"/>\<newline>        '', ''<transparent_bsdf name="'', Name viewobj,
         ''_trans" color="1.0, 1.0, 1.0"/>\<newline>        '', ''<mix_closure name="'',
         Name viewobj, ''_mix" fac="'', fstr alpha, ''"/>\<newline>        '',
         ''<connect from="'', Name viewobj, ''_trans bsdf"  to="'', Name viewobj,
         ''_mix closure1"/>\<newline>        '', ''<connect from="'', Name viewobj,
         ''_bsdf bsdf"   to="'', Name viewobj, ''_mix closure2"/>\<newline>        '',
         ''<connect from="'', Name viewobj,
         ''_mix closure" to="output surface"/>\<newline>    '', ''</shader>\<newline>    '',
         ''<state shader="'', Name viewobj, ''_mat">\<newline>        '', ''<mesh P="'',
         join ''  '' (map (vec_text fstr) (fst (Topology mesh))),
         ''"\<newline>              nverts="'',
         join ''  '' (replicate (length (snd (Topology mesh))) ''3''),
         ''"\<newline>              verts="'',
         join ''  '' (map face_text (snd (Topology mesh))), ''"/>\<newline>    '',
         ''</state>\<newline>''])\<close>
  unfolding write_object_def points_comp faces_comp
  using assms by (simp add: fmt_defs)

lemma write_object_text_direct:
  fixes fstr :: "'a::{one,ord} \<Rightarrow> string"
  assumes "\<not> alpha < 1" and "list_all (\<lambda>v. 3 \<le> length v) (snd (Topology mesh))"
  shows \<open>write_object fstr viewobj mesh (c0 # c1 # c2 # cs) alpha = Inr (concat
        [''\<newline>    '', ''<!-- Generated by FreeCAD - Object '', [CHR 0x27],
         Name viewobj, ''' -->\<newline>    '', ''<shader name="'', Name viewobj,
         ''_mat">\<newline>        '', ''<diffuse_bsdf name="'', Name viewobj,
         ''_bsdf" color="'', fstr c0, '', '', fstr c1, '', '', fstr c2,
         ''"/>\<newline>        '', ''<connect from="'', Name viewobj,
         ''_bsdf bsdf"   to="output surface"/>\<newline>    '', ''</shader>\<newline>    '',
         ''<state shader="'', Name viewobj, ''_mat">\<newline>        '', ''<mesh P="'',
         join ''  '' (map (vec_text fstr) (fst (Topology mesh))),
         ''"\<newline>              nverts="'',
         join ''  '' (replicate (length (snd (Topology mesh))) ''3''),
         ''"\<newline>              verts="'',
         join ''  '' (map face_text (snd (Topology mesh))), ''"/>\<newline>    '',
         ''</state>\<newline>''])\<close>
  unfolding write_object_def points_comp faces_comp
  using assms by (simp add: fmt_defs)

lemma write_object_short_face:
  fixes fstr :: "'a::{one,ord} \<Rightarrow> string"
  assumes "\<not> list_all (\<lambda>v. 3 \<le> length v) (snd (Topology mesh))"
  shows "write_object fstr viewobj mesh color alpha = Inl IndexError"
  unfolding write_object_def points_comp faces_comp
  using assms by (simp add: Let_def)


subsection \<open>No formatted value holds a \<^verbatim>\<open><\<close>\<close>

lemma length_ge3E:
  assumes "3 \<le> length xs"
  obtains a b c rest where "xs = a # b # c # rest"
  using assms by (cases xs; cases "tl xs"; cases "tl (tl xs)") auto

lemma notin_join:
  "c \<notin> set sep \<Longrightarrow> (\<And>s. s \<in> set ss \<Longrightarrow> c \<notin> set s) \<Longrightarrow> c \<notin> set (join sep ss)"
  by (induction sep ss rule: join.induct) auto

lemma digit_char_in: "d < 10 \<Longrightarrow> digit_char d \<in> set ''0123456789''"
  unfolding digit_char_def by (rule nth_mem) simp

lemma set_str_nat: "set (str_nat n) \<subseteq> set ''0123456789''"
proof (induction n rule: str_nat.induct)
  case (1 n)
  show ?case
  proof (cases "n < 10")
    case True
    then show ?thesis
      using digit_char_in [of n] by (subst str_nat.simps) simp
  next
    case False
    have "n mod 10 < 10" by simp
    then have "digit_char (n mod 10) \<in> set ''0123456789''" by (rule digit_char_in)
    with False 1 show ?thesis
      by (subst str_nat.simps) simp
  qed
qed

lemma lt_notin_str_nat: "CHR ''<'' \<notin> set (str_nat n)"
  using set_str_nat [of n] by auto

lemma lt_notin_str_int: "CHR ''<'' \<notin> set (str_int i)"
  by (simp add: str_int_def lt_notin_str_nat)

lemma lt_notin_face_text: "CHR ''<'' \<notin> set (face_text v)"
  by (simp add: face_text_def lt_notin_str_int)

lemma lt_notin_vec_text:
  "\<forall>x. CHR ''<'' \<notin> set (fstr x) \<Longrightarrow> CHR ''<'' \<notin> set (vec_text fstr v)"
  by (simp add: vec_text_def)

lemma lt_notin_points:
  "\<forall>x. CHR ''<'' \<notin> set (fstr x) \<Longrightarrow> CHR ''<'' \<notin> set (join ''  '' (map (vec_text fstr) ps))"
  by (rule notin_join) (auto simp: lt_notin_vec_text)

lemma lt_notin_verts: "CHR ''<'' \<notin> set (join ''  '' (map face_text fs))"
  by (rule notin_join) (auto simp: lt_notin_face_text)

lemma lt_notin_nverts: "CHR ''<'' \<notin> set (join ''  '' (replicate n ''3''))"
  by (rule notin_join) auto

lemmas lt_notin = lt_notin_points lt_notin_verts lt_notin_nverts

subsection \<open>Elements of the object text\<close>

lemma write_object_mix_counts:
  fixes fstr :: "'a::{one,ord} \<Rightarrow> string"
  assumes a: "alpha < 1"
    and n: "CHR ''<'' \<notin> set (Name viewobj)"
    and f: "\<forall>x. CHR ''<'' \<notin> set (fstr x)"
    and c: "3 \<le> length color"
    and m: "list_all (\<lambda>v. 3 \<le> length v) (snd (Topology mesh))"
  shows \<open>\<exists>out. write_object fstr viewobj mesh color alpha = Inr out \<and>
     count_sub ''<diffuse_bsdf'' out = 1 \<and>
     count_sub ''<transparent_bsdf'' out = 1 \<and>
     count_sub ''<mix_closure'' out = 1 \<and>
     count_sub (''<mix_closure name="'' @ Name viewobj @ ''_mix" fac="'' @ fstr alpha @ ''"/>'') out = 1 \<and>
     count_sub (''<connect from="'' @ Name viewobj @ ''_trans bsdf"  to="'' @ Name viewobj @ ''_mix closure1"/>'') out = 1 \<and>
     count_sub (''<connect from="'' @ Name viewobj @ ''_bsdf bsdf"   to="'' @ Name viewobj @ ''_mix closure2"/>'') out = 1 \<and>
     count_sub (''<connect from="'' @ Name viewobj @ ''_mix closure" to="output surface"/>'') out = 1 \<and>
     count_sub ''<connect'' out = 3\<close>
proof -
  from c obtain c0 c1 c2 cs where col: "color = c0 # c1 # c2 # cs" by (rule length_ge3E)
  show ?thesis
    unfolding col write_object_text_mix [OF a m]
    using n f by (simp add: count_rules lt_notin del: concat.simps)
qed

lemma write_object_direct_counts:
  fixes fstr :: "'a::{one,ord} \<Rightarrow> string"
  assumes a: "\<not> alpha < 1"
    and n: "CHR ''<'' \<notin> set (Name viewobj)"
    and f: "\<forall>x. CHR ''<'' \<notin> set (fstr x)"
    and c: "3 \<le> length color"
    and m: "list_all (\<lambda>v. 3 \<le> length v) (snd (Topology mesh))"
  shows \<open>\<exists>out. write_object fstr viewobj mesh color alpha = Inr out \<and>
     count_sub ''<diffuse_bsdf'' out = 1 \<and>
     count_sub ''<transparent_bsdf'' out = 0 \<and>
     count_sub ''<mix_closure'' out = 0 \<and>
     count_sub (''<connect from="'' @ Name viewobj @ ''_bsdf bsdf"   to="output surface"/>'') out = 1 \<and>
     count_sub ''<connect'' out = 1\<close>
proof -
  from c obtain c0 c1 c2 cs where col: "color = c0 # c1 # c2 # cs" by (rule length_ge3E)
  show ?thesis
    unfolding col write_object_text_direct [OF a m]
    using n f by (simp add: count_rules lt_notin del: concat.simps)
qed


lemma write_camera_text:
  \<open>write_camera fstr pos rot updir target name = Inr (concat
        [''\<newline>    '', ''<!-- Generated by FreeCAD - Camera '', [CHR 0x27], name,
         ''' -->\<newline>    '', ''<transform rotate="'', fstr (degrees (Angle rot)), '' '',
         fstr (vx (Axis rot)), '' '', fstr (vy (Axis rot)), '' '', fstr (vz (Axis rot)),
         ''"\<newline>               translate="'', fstr (vx pos), '' '', fstr (vy pos),
         '' '', fstr (vz pos),
         ''"\<newline>               scale="1 1 -1">\<newline>        '',
         ''<camera type="perspective"/>\<newline>    '', ''</transform>''])\<close>
  by (simp add: write_camera_def fmt_defs)

lemma write_pointlight_text:
  fixes fstr :: "'a::{times,numeral} \<Rightarrow> string"
  shows \<open>write_pointlight fstr view location (c0 # c1 # c2 # cs) power' = Inr (concat
        [''\<newline>    '', ''<!-- Generated by FreeCAD - Pointlight '', [CHR 0x27],
         Name view, ''' -->\<newline>    '', ''<shader name="'', Name view,
         ''_shader">\<newline>        '', ''<emission name="'', Name view,
         ''_emit"\<newline>                  color="'', fstr c0, '' '', fstr c1, '' '',
         fstr c2, ''"\<newline>                  strength="'', fstr (power' * 100),
         ''"/>\<newline>        '', ''<connect from="'', Name view,
         ''_emit emission"\<newline>                 to="output surface"/>\<newline>    '',
         ''</shader>\<newline>    '', ''<state shader="'', Name view,
         ''_shader">\<newline>        '',
         ''<light type="point"\<newline>               co="'', fstr (vx location), '' '',
         fstr (vy location), '' '', fstr (vz location),
         ''"\<newline>               strength="1 1 1"/>\<newline>    '',
         ''</state>\<newline>''])\<close>
  by (simp add: write_pointlight_def fmt_defs)

lemma write_arealight_text:
  fixes fstr :: "'a::{times,minus,zero,numeral} \<Rightarrow> string"
  assumes "axis1 = multVec (Rotation pos) (Vector 1 0 0)"
    and "axis2 = multVec (Rotation pos) (Vector 0 1 0)"
    and "direction = cross axis1 axis2"
  shows \<open>write_arealight fstr multVec name pos size_u size_v (c0 # c1 # c2 # cs) power' = Inr (concat
        [''\<newline>    '', ''<!-- Generated by FreeCAD - Area light '', [CHR 0x27], name,
         ''' -->\<newline>    '', ''<shader name="'', name, ''_shader">\<newline>        '',
         ''<emission name="'', name, ''_emit"\<newline>                  color="'', fstr c0,
         '' '', fstr c1, '' '', fstr c2, ''"\<newline>                  strength="'',
         fstr (power' * 100), ''"/>\<newline>        '', ''<connect from="'', name,
         ''_emit emission"\<newline>                 to="output surface"/>\<newline>    '',
         ''</shader>\<newline>    '', ''<state shader="'', name,
         ''_shader">\<newline>        '',
         ''<light type="area"\<newline>               co="'', fstr (vx (Base pos)), '' '',
         fstr (vy (Base pos)), '' '', fstr (vz (Base pos)),
         ''"\<newline>               strength="1 1 1"\<newline>               axisu="'',
         fstr (vx axis1), '' '', fstr (vy axis1), '' '', fstr (vz axis1),
         ''"\<newline>               axisv="'', fstr (vx axis2), '' '', fstr (vy axis2),
         '' '', fstr (vz axis2), ''"\<newline>               sizeu="'', fstr size_u,
         ''"\<newline>               sizev="'', fstr size_v,
         ''"\<newline>               size="1"\<newline>               dir="'',
         fstr (vx direction), '' '', fstr (vy direction), '' '', fstr (vz direction),
         ''" />\<newline>    '', ''</state>\<newline>''])\<close>
  using assms by (simp add: write_arealight_def fmt_defs Let_def)

lemma write_object_mesh_element:
  fixes fstr :: "'a::{one,ord} \<Rightarrow> string"
  assumes n: "CHR ''<'' \<notin> set (Name viewobj)"
    and f: "\<forall>x. CHR ''<'' \<notin> set (fstr x)"
    and c: "3 \<le> length color"
    and m: "list_all (\<lambda>v. 3 \<le> length v) (snd (Topology mesh))"
  shows \<open>\<exists>out. write_object fstr viewobj mesh color alpha = Inr out \<and>
     count_sub ''<mesh'' out = 1 \<and>
     count_sub
       (''<mesh P="'' @ join ''  '' (map (vec_text fstr) (fst (Topology mesh))) @
        ''"\<newline>              nverts="'' @
        join ''  '' (replicate (length (snd (Topology mesh))) ''3'') @
        ''"\<newline>              verts="'' @
        join ''  '' (map face_text (snd (Topology mesh))) @ ''"/>'') out = 1\<close>
proof -
  from c obtain c0 c1 c2 cs where col: "color = c0 # c1 # c2 # cs" by (rule length_ge3E)
  show ?thesis
  proof (cases "alpha < 1")
    case True
    show ?thesis
      unfolding col write_object_text_mix [OF True m]
      using n f by (simp add: count_rules lt_notin del: concat.simps)
  next
    case False
    show ?thesis
      unfolding col write_object_text_direct [OF False m]
      using n f by (simp add: count_rules lt_notin del: concat.simps)
  qed
qed

section \<open>Properties of \<^verbatim>\<open>render\<close>\<close>

text \<open>
  C4. When the executable path read from the preferences (key \<^verbatim>\<open>CyclesPath\<close>) is
  the empty string, \<^verbatim>\<open>render\<close> prints an error message on the console, returns
  the empty string and starts no process.
\<close>

theorem render_empty_path:
  assumes "GetString (render_prefs w) ''CyclesPath'' '''' = ''''"
  shows "render w project prefix_arg external output width height =
           ('''', w\<lparr>console := console w @
              [PrintError ''Unable to locate renderer executable. Please set the correct path in Edit -> Preferences -> Render'']\<rparr>)
         \<and> spawned (snd (render w project prefix_arg external output width height)) = spawned w"
  using assms by (simp add: render_def render_prefs_def Console_PrintError_def Let_def)

theorem render_empty_path_witness:
  "GetString (render_prefs no_prefs_world) ''CyclesPath'' '''' = '''' \<and>
   fst (render no_prefs_world \<lparr>PageResult = ''scene.xml''\<rparr> ''pre'' False ''out.png'' 800 600) = '''' \<and>
   console (snd (render no_prefs_world \<lparr>PageResult = ''scene.xml''\<rparr> ''pre'' False ''out.png'' 800 600)) =
     [PrintError ''Unable to locate renderer executable. Please set the correct path in Edit -> Preferences -> Render''] \<and>
   spawned (snd (render no_prefs_world \<lparr>PageResult = ''scene.xml''\<rparr> ''pre'' False ''out.png'' 800 600)) = []"
proof -
  have h: "GetString (render_prefs no_prefs_world) ''CyclesPath'' '''' = ''''"
    by (simp add: GetString_def render_prefs_def ParamGet_def no_prefs_world_def)
  show ?thesis
    using h render_empty_path [OF h, of "\<lparr>PageResult = ''scene.xml''\<rparr>" "''pre''" False "''out.png''" 800 600]
    by (simp add: no_prefs_world_def)
qed

text \<open>
  C5. When the executable path is not empty, the command handed to the operating system
  is, in this order: the optional prefix token, the executable path, the stored extra
  parameters, \<^verbatim>\<open>--output\<close> and the output path, \<^verbatim>\<open>--background\<close> if and only
  if \<^verbatim>\<open>external\<close> is false, \<^verbatim>\<open>--width\<close> and the width, \<^verbatim>\<open>--height\<close> and
  the height, and the scene-description file path.
\<close>

theorem render_command_line:
  assumes "GetString (render_prefs w) ''CyclesPath'' '''' \<noteq> ''''"
  shows "spawned (snd (render w project prefix_arg external output width height)) =
           spawned w @
           [spec_command_line
              (GetString (render_prefs w) ''Prefix'' '''')
              (GetString (render_prefs w) ''CyclesPath'' '''')
              (GetString (render_prefs w) ''CyclesParameters'' '''')
              external output width height (PageResult project)]"
  using assms
  by (simp add: render_def render_prefs_def spec_command_line_def os_system_def
        Console_PrintMessage_def Let_def)

lemma str_int_800: "str_int 800 = ''800''" "str_int 600 = ''600''"
  by (simp_all add: str_int_def str_nat.simps digit_char_def)

theorem render_command_line_witness:
  "GetString (render_prefs cycles_world) ''CyclesPath'' '''' \<noteq> '''' \<and>
   spawned (snd (render cycles_world \<lparr>PageResult = ''scene.xml''\<rparr> ''pre'' False ''out.png'' 800 600)) =
     [''nice /usr/bin/cycles --samples 10 --output out.png --background --width 800 --height 600 scene.xml''] \<and>
   spawned (snd (render cycles_world \<lparr>PageResult = ''scene.xml''\<rparr> ''pre'' True ''out.png'' 800 600)) =
     [''nice /usr/bin/cycles --samples 10 --output out.png --width 800 --height 600 scene.xml'']"
proof -
  have h: "GetString (render_prefs cycles_world) ''CyclesPath'' '''' \<noteq> ''''"
    by (simp add: GetString_def render_prefs_def ParamGet_def cycles_world_def)
  show ?thesis
    using h
      render_command_line [OF h, of "\<lparr>PageResult = ''scene.xml''\<rparr>" "''pre''" False "''out.png''" 800 600]
      render_command_line [OF h, of "\<lparr>PageResult = ''scene.xml''\<rparr>" "''pre''" True "''out.png''" 800 600]
    by (simp add: spec_command_line_def GetString_def render_prefs_def ParamGet_def
          cycles_world_def str_int_800)
qed

text \<open>
  C6. When the executable path is not empty, \<^verbatim>\<open>render\<close> returns its
  \<^verbatim>\<open>output\<close> argument once the command has been started, whatever exit status
  the process reports: the status changes neither the result nor the state left behind.
\<close>

theorem render_returns_output:
  assumes "GetString (render_prefs w) ''CyclesPath'' '''' \<noteq> ''''"
  shows "fst (render (w\<lparr>exit_status := status\<rparr>) project prefix_arg external output width height) = output
       \<and> snd (render (w\<lparr>exit_status := status\<rparr>) project prefix_arg external output width height)
           = (snd (render w project prefix_arg external output width height))\<lparr>exit_status := status\<rparr>
       \<and> length (spawned (snd (render (w\<lparr>exit_status := status\<rparr>) project prefix_arg external output width height)))
           = Suc (length (spawned w))"
  using assms
  by (simp add: render_def render_prefs_def os_system_def ParamGet_def
        Console_PrintMessage_def Let_def)

theorem render_returns_output_witness:
  "GetString (render_prefs cycles_world) ''CyclesPath'' '''' \<noteq> '''' \<and>
   fst (render (cycles_world\<lparr>exit_status := (\<lambda>cmd. 127)\<rparr>) \<lparr>PageResult = ''scene.xml''\<rparr> ''pre'' False ''out.png'' 800 600) = ''out.png'' \<and>
   length (spawned (snd (render (cycles_world\<lparr>exit_status := (\<lambda>cmd. 127)\<rparr>) \<lparr>PageResult = ''scene.xml''\<rparr> ''pre'' False ''out.png'' 800 600))) = 1"
proof -
  have h: "GetString (render_prefs cycles_world) ''CyclesPath'' '''' \<noteq> ''''"
    by (simp add: GetString_def render_prefs_def ParamGet_def cycles_world_def)
  note r = render_returns_output [OF h, of "\<lambda>cmd. 127" "\<lparr>PageResult = ''scene.xml''\<rparr>"
      "''pre''" False "''out.png''" 800 600]
  have s: "spawned cycles_world = []"
    by (simp add: cycles_world_def)
  show ?thesis
    using h r [THEN conjunct1] r [THEN conjunct2, THEN conjunct2] by (simp add: s)
qed

text \<open>
  C9. The \<^verbatim>\<open>prefix\<close> argument of \<^verbatim>\<open>render\<close> is ignored: two calls that differ
  only in it return the same value and leave the same state behind (console output and
  started commands, so the assembled command line too).
\<close>

theorem render_prefix_argument_ignored:
  "render w project prefix1 external output width height
     = render w project prefix2 external output width height"
  by (simp add: render_def)

lemma lt_notin_str_tenths: "CHR ''<'' \<notin> set (str_tenths x)"
  by (simp add: str_tenths_def Let_def lt_notin_str_nat)

lemma str_tenths_values:
  "str_tenths 0 = ''0.0''" "str_tenths 1 = ''1.0''" "str_tenths (1 / 2) = ''0.5''"
  "str_tenths (- 1) = ''-1.0''" "str_tenths 5 = ''5.0''" "str_tenths 2 = ''2.0''"
  "str_tenths 90 = ''90.0''" "str_tenths 200 = ''200.0''"
  by (simp_all add: str_tenths_def Let_def str_nat.simps digit_char_def)

section \<open>Properties of the scene formatters\<close>

text \<open>
  The theorems below are about well-formed input: the object name holds no
  \<^verbatim>\<open><\<close> (the host restricts names to letters, digits and underscores), the
  number formatter writes none, the colour has its three components, and every face has
  at least three indices. Without the last two the formatter raises
  \<^verbatim>\<open>IndexError\<close>.
\<close>

text \<open>
  C1. For an opacity strictly below 1 the text of \<^verbatim>\<open>write_object\<close> holds
  exactly one \<^verbatim>\<open>transparent_bsdf\<close> element and exactly one
  \<^verbatim>\<open>mix_closure\<close> element, whose \<^verbatim>\<open>fac\<close> is the opacity and which is
  connected to the transparent and to the diffuse shader; for an opacity equal to 1 it
  holds neither, and the diffuse shader is connected to the output directly.
\<close>

theorem write_object_opacity_threshold:
  fixes fstr :: "'a::{one,preorder} \<Rightarrow> string"
  assumes n: "CHR ''<'' \<notin> set (Name viewobj)"
    and f: "\<forall>x. CHR ''<'' \<notin> set (fstr x)"
    and c: "3 \<le> length color"
    and m: "list_all (\<lambda>v. 3 \<le> length v) (snd (Topology mesh))"
  shows \<open>\<exists>out. write_object fstr viewobj mesh color alpha = Inr out \<and>
     count_sub ''<diffuse_bsdf'' out = 1 \<and>
     (alpha < 1 \<longrightarrow>
        count_sub ''<transparent_bsdf'' out = 1 \<and>
        count_sub ''<mix_closure'' out = 1 \<and>
        count_sub (''<mix_closure name="'' @ Name viewobj @ ''_mix" fac="'' @ fstr alpha @ ''"/>'') out = 1 \<and>
        count_sub (''<connect from="'' @ Name viewobj @ ''_trans bsdf"  to="'' @ Name viewobj @ ''_mix closure1"/>'') out = 1 \<and>
        count_sub (''<connect from="'' @ Name viewobj @ ''_bsdf bsdf"   to="'' @ Name viewobj @ ''_mix closure2"/>'') out = 1 \<and>
        count_sub (''<connect from="'' @ Name viewobj @ ''_mix closure" to="output surface"/>'') out = 1 \<and>
        count_sub ''<connect'' out = 3) \<and>
     (alpha = 1 \<longrightarrow>
        count_sub ''<transparent_bsdf'' out = 0 \<and>
        count_sub ''<mix_closure'' out = 0 \<and>
        count_sub (''<connect from="'' @ Name viewobj @ ''_bsdf bsdf"   to="output surface"/>'') out = 1 \<and>
        count_sub ''<connect'' out = 1)\<close>
proof (cases "alpha < 1")
  case True
  then have "alpha \<noteq> 1" by auto
  with True write_object_mix_counts [OF True n f c m] show ?thesis by auto
next
  case False
  with write_object_direct_counts [OF False n f c m] show ?thesis by auto
qed

theorem write_object_opacity_threshold_witness:
  \<open>CHR ''<'' \<notin> set (Name \<lparr>Name = ''Box''\<rparr>) \<and>
   (\<forall>x. CHR ''<'' \<notin> set (str_tenths x)) \<and>
   3 \<le> length [1, 0, 0 :: real] \<and>
   list_all (\<lambda>v. 3 \<le> length v) (snd (Topology \<lparr>Topology = (triangle :: real vector list, [[0, 1, 2]])\<rparr>)) \<and>
   (\<exists>out. write_object str_tenths \<lparr>Name = ''Box''\<rparr> \<lparr>Topology = (triangle, [[0, 1, 2]])\<rparr> [1, 0, 0] (1 / 2) = Inr out \<and>
      count_sub ''<transparent_bsdf'' out = 1 \<and>
      count_sub ''<mix_closure'' out = 1 \<and>
      count_sub ''<mix_closure name="Box_mix" fac="0.5"/>'' out = 1 \<and>
      count_sub ''<connect from="Box_trans bsdf"  to="Box_mix closure1"/>'' out = 1 \<and>
      count_sub ''<connect from="Box_bsdf bsdf"   to="Box_mix closure2"/>'' out = 1) \<and>
   (\<exists>out. write_object str_tenths \<lparr>Name = ''Box''\<rparr> \<lparr>Topology = (triangle, [[0, 1, 2]])\<rparr> [1, 0, 0] 1 = Inr out \<and>
      count_sub ''<transparent_bsdf'' out = 0 \<and>
      count_sub ''<mix_closure'' out = 0 \<and>
      count_sub ''<connect from="Box_bsdf bsdf"   to="output surface"/>'' out = 1 \<and>
      count_sub ''<connect'' out = 1)\<close>
proof -
  have n: "CHR ''<'' \<notin> set (Name \<lparr>Name = ''Box''\<rparr>)" by simp
  have f: "\<forall>x. CHR ''<'' \<notin> set (str_tenths x)" by (simp add: lt_notin_str_tenths)
  have c: "3 \<le> length [1, 0, 0 :: real]" by simp
  have m: "list_all (\<lambda>v. 3 \<le> length v)
             (snd (Topology \<lparr>Topology = (triangle :: real vector list, [[0, 1, 2]])\<rparr>))"
    by simp
  from write_object_opacity_threshold [OF n f c m, of "1 / 2"]
  have half: \<open>\<exists>out. write_object str_tenths \<lparr>Name = ''Box''\<rparr> \<lparr>Topology = (triangle, [[0, 1, 2]])\<rparr> [1, 0, 0] (1 / 2) = Inr out \<and>
      count_sub ''<transparent_bsdf'' out = 1 \<and>
      count_sub ''<mix_closure'' out = 1 \<and>
      count_sub ''<mix_closure name="Box_mix" fac="0.5"/>'' out = 1 \<and>
      count_sub ''<connect from="Box_trans bsdf"  to="Box_mix closure1"/>'' out = 1 \<and>
      count_sub ''<connect from="Box_bsdf bsdf"   to="Box_mix closure2"/>'' out = 1\<close>
    by (auto simp: str_tenths_values)
  from write_object_opacity_threshold [OF n f c m, of 1]
  have one: \<open>\<exists>out. write_object str_tenths \<lparr>Name = ''Box''\<rparr> \<lparr>Topology = (triangle, [[0, 1, 2]])\<rparr> [1, 0, 0] 1 = Inr out \<and>
      count_sub ''<transparent_bsdf'' out = 0 \<and>
      count_sub ''<mix_closure'' out = 0 \<and>
      count_sub ''<connect from="Box_bsdf bsdf"   to="output surface"/>'' out = 1 \<and>
      count_sub ''<connect'' out = 1\<close>
    by auto
  from n f c m half one show ?thesis by blast
qed

subsection \<open>Lights\<close>

lemma write_pointlight_emission:
  fixes fstr :: "'a::{times,numeral} \<Rightarrow> string"
  assumes n: "CHR ''<'' \<notin> set (Name view)"
    and f: "\<forall>x. CHR ''<'' \<notin> set (fstr x)"
    and c: "3 \<le> length color"
  shows \<open>\<exists>out. write_pointlight fstr view location color power' = Inr out \<and>
     count_sub ''<emission'' out = 1 \<and>
     count_sub
       (''<emission name="'' @ Name view @ ''_emit"\<newline>                  color="'' @
        fstr (color ! 0) @ '' '' @ fstr (color ! 1) @ '' '' @ fstr (color ! 2) @
        ''"\<newline>                  strength="'' @ fstr (power' * 100) @ ''"/>'') out = 1\<close>
proof -
  from c obtain c0 c1 c2 cs where col: "color = c0 # c1 # c2 # cs" by (rule length_ge3E)
  show ?thesis
    unfolding col write_pointlight_text
    using n f by (simp add: count_rules del: concat.simps)
qed

lemma write_arealight_emission:
  fixes fstr :: "'a::{times,minus,zero,numeral} \<Rightarrow> string"
  assumes n: "CHR ''<'' \<notin> set name"
    and f: "\<forall>x. CHR ''<'' \<notin> set (fstr x)"
    and c: "3 \<le> length color"
  shows \<open>\<exists>out. write_arealight fstr multVec name pos size_u size_v color power' = Inr out \<and>
     count_sub ''<emission'' out = 1 \<and>
     count_sub
       (''<emission name="'' @ name @ ''_emit"\<newline>                  color="'' @
        fstr (color ! 0) @ '' '' @ fstr (color ! 1) @ '' '' @ fstr (color ! 2) @
        ''"\<newline>                  strength="'' @ fstr (power' * 100) @ ''"/>'') out = 1\<close>
proof -
  from c obtain c0 c1 c2 cs where col: "color = c0 # c1 # c2 # cs" by (rule length_ge3E)
  show ?thesis
    unfolding col write_arealight_text [OF refl refl refl]
    using n f by (simp add: count_rules del: concat.simps)
qed

text \<open>
  C2. The emission strength that \<^verbatim>\<open>write_pointlight\<close> and
  \<^verbatim>\<open>write_arealight\<close> write is the input power multiplied by 100: the one
  \<^verbatim>\<open>emission\<close> element of either text has \<^verbatim>\<open>strength\<close> equal to the
  formatted product. The code does not look at the sign of the power, so this holds for
  every power, those from 0 upwards among them.
\<close>

theorem light_strength_times_100:
  fixes fstr :: "'a::{times,minus,zero,numeral} \<Rightarrow> string"
  assumes "CHR ''<'' \<notin> set (Name view)"
    and "CHR ''<'' \<notin> set name"
    and "\<forall>x. CHR ''<'' \<notin> set (fstr x)"
    and "3 \<le> length color"
  shows \<open>(\<exists>out. write_pointlight fstr view location color power' = Inr out \<and>
      count_sub ''<emission'' out = 1 \<and>
      count_sub
        (''<emission name="'' @ Name view @ ''_emit"\<newline>                  color="'' @
        fstr (color ! 0) @ '' '' @ fstr (color ! 1) @ '' '' @ fstr (color ! 2) @
        ''"\<newline>                  strength="'' @ fstr (power' * 100) @ ''"/>'') out = 1) \<and>
    (\<exists>out. write_arealight fstr multVec name pos size_u size_v color power' = Inr out \<and>
      count_sub ''<emission'' out = 1 \<and>
      count_sub
        (''<emission name="'' @ name @ ''_emit"\<newline>                  color="'' @
        fstr (color ! 0) @ '' '' @ fstr (color ! 1) @ '' '' @ fstr (color ! 2) @
        ''"\<newline>                  strength="'' @ fstr (power' * 100) @ ''"/>'') out = 1)\<close>
  using assms write_pointlight_emission write_arealight_emission by blast

theorem light_strength_times_100_witness:
  \<open>CHR ''<'' \<notin> set (Name \<lparr>Name = ''Lamp''\<rparr>) \<and> CHR ''<'' \<notin> set ''Panel'' \<and>
   (\<forall>x. CHR ''<'' \<notin> set (str_tenths x)) \<and> 3 \<le> length [1, 1, 1 :: real] \<and>
   (\<exists>out. write_pointlight str_tenths \<lparr>Name = ''Lamp''\<rparr> (Vector 0 0 5) [1, 1, 1] 2 = Inr out \<and>
      count_sub ''<emission name="Lamp_emit"
                  color="1.0 1.0 1.0"
                  strength="200.0"/>'' out = 1) \<and>
   (\<exists>out. write_arealight str_tenths (\<lambda>r. r) ''Panel''
             \<lparr>Base = Vector 0 0 5, Rotation = quarter_turn_z\<rparr> 2 1 [1, 1, 1] 2 = Inr out \<and>
      count_sub ''<emission name="Panel_emit"
                  color="1.0 1.0 1.0"
                  strength="200.0"/>'' out = 1)\<close>
proof -
  have n: "CHR ''<'' \<notin> set (Name \<lparr>Name = ''Lamp''\<rparr>)" by simp
  have n': "CHR ''<'' \<notin> set ''Panel''" by simp
  have f: "\<forall>x. CHR ''<'' \<notin> set (str_tenths x)" by (simp add: lt_notin_str_tenths)
  have c: "3 \<le> length [1, 1, 1 :: real]" by simp
  note t = light_strength_times_100 [OF n n' f c, of "Vector 0 0 5" 2 "\<lambda>r. r"
      "\<lparr>Base = Vector 0 0 5, Rotation = quarter_turn_z\<rparr>" 2 1]
  from t [THEN conjunct1]
  have p: \<open>\<exists>out. write_pointlight str_tenths \<lparr>Name = ''Lamp''\<rparr> (Vector 0 0 5) [1, 1, 1] 2 = Inr out \<and>
      count_sub ''<emission name="Lamp_emit"
                  color="1.0 1.0 1.0"
                  strength="200.0"/>'' out = 1\<close>
    by (auto simp: str_tenths_values)
  from t [THEN conjunct2]
  have a: \<open>\<exists>out. write_arealight str_tenths (\<lambda>r. r) ''Panel''
             \<lparr>Base = Vector 0 0 5, Rotation = quarter_turn_z\<rparr> 2 1 [1, 1, 1] 2 = Inr out \<and>
      count_sub ''<emission name="Panel_emit"
                  color="1.0 1.0 1.0"
                  strength="200.0"/>'' out = 1\<close>
    by (auto simp: str_tenths_values)
  from n n' f c p a show ?thesis by blast
qed


text \<open>
  C3. For every placement rotation, the one \<^verbatim>\<open>light\<close> element that
  \<^verbatim>\<open>write_arealight\<close> writes has as \<^verbatim>\<open>axisu\<close> and \<^verbatim>\<open>axisv\<close> the
  rotation applied to \<open>(1, 0, 0)\<close> and to \<open>(0, 1, 0)\<close>, and as \<^verbatim>\<open>dir\<close> the
  cross product of the first with the second.
\<close>

theorem write_arealight_direction:
  fixes fstr :: "'a::{times,minus,zero,numeral} \<Rightarrow> string"
  assumes n: "CHR ''<'' \<notin> set name"
    and f: "\<forall>x. CHR ''<'' \<notin> set (fstr x)"
    and c: "3 \<le> length color"
  shows \<open>\<exists>out. write_arealight fstr multVec name pos size_u size_v color power' = Inr out \<and>
     count_sub ''<light'' out = 1 \<and>
     count_sub
       (''<light type="area"\<newline>               co="'' @ fstr (vx (Base pos)) @
        '' '' @ fstr (vy (Base pos)) @ '' '' @ fstr (vz (Base pos)) @
        ''"\<newline>               strength="1 1 1"\<newline>               axisu="'' @
        fstr (vx (multVec (Rotation pos) (Vector 1 0 0))) @ '' '' @
        fstr (vy (multVec (Rotation pos) (Vector 1 0 0))) @ '' '' @
        fstr (vz (multVec (Rotation pos) (Vector 1 0 0))) @
        ''"\<newline>               axisv="'' @
        fstr (vx (multVec (Rotation pos) (Vector 0 1 0))) @ '' '' @
        fstr (vy (multVec (Rotation pos) (Vector 0 1 0))) @ '' '' @
        fstr (vz (multVec (Rotation pos) (Vector 0 1 0))) @
        ''"\<newline>               sizeu="'' @ fstr size_u @
        ''"\<newline>               sizev="'' @ fstr size_v @
        ''"\<newline>               size="1"\<newline>               dir="'' @
        fstr (vx (cross (multVec (Rotation pos) (Vector 1 0 0)) (multVec (Rotation pos) (Vector 0 1 0)))) @
        '' '' @
        fstr (vy (cross (multVec (Rotation pos) (Vector 1 0 0)) (multVec (Rotation pos) (Vector 0 1 0)))) @
        '' '' @
        fstr (vz (cross (multVec (Rotation pos) (Vector 1 0 0)) (multVec (Rotation pos) (Vector 0 1 0)))) @
        ''" />'') out = 1\<close>
proof -
  from c obtain c0 c1 c2 cs where col: "color = c0 # c1 # c2 # cs" by (rule length_ge3E)
  show ?thesis
    unfolding col write_arealight_text [OF refl refl refl]
    using n f by (simp add: count_rules del: concat.simps)
qed

theorem write_arealight_direction_witness:
  \<open>CHR ''<'' \<notin> set ''Panel'' \<and> (\<forall>x. CHR ''<'' \<notin> set (str_tenths x)) \<and>
   3 \<le> length [1, 1, 1 :: real] \<and>
   cross (quarter_turn_z (Vector 1 0 0)) (quarter_turn_z (Vector 0 1 0)) = Vector 0 0 1 \<and>
   (\<exists>out. write_arealight str_tenths (\<lambda>r. r) ''Panel''
             \<lparr>Base = Vector 0 0 5, Rotation = quarter_turn_z\<rparr> 2 1 [1, 1, 1] 2 = Inr out \<and>
      count_sub ''<light type="area"
               co="0.0 0.0 5.0"
               strength="1 1 1"
               axisu="0.0 1.0 0.0"
               axisv="-1.0 0.0 0.0"
               sizeu="2.0"
               sizev="1.0"
               size="1"
               dir="0.0 0.0 1.0" />'' out = 1)\<close>
proof -
  have n: "CHR ''<'' \<notin> set ''Panel''" by simp
  have f: "\<forall>x. CHR ''<'' \<notin> set (str_tenths x)" by (simp add: lt_notin_str_tenths)
  have c: "3 \<le> length [1, 1, 1 :: real]" by simp
  have d: "cross (quarter_turn_z (Vector 1 0 0)) (quarter_turn_z (Vector 0 1 0)) = Vector 0 0 1"
    by (simp add: cross_def quarter_turn_z_def)
  from write_arealight_direction [OF n f c, of "\<lambda>r. r"
      "\<lparr>Base = Vector 0 0 5, Rotation = quarter_turn_z\<rparr>" 2 1 2]
  have a: \<open>\<exists>out. write_arealight str_tenths (\<lambda>r. r) ''Panel''
             \<lparr>Base = Vector 0 0 5, Rotation = quarter_turn_z\<rparr> 2 1 [1, 1, 1] 2 = Inr out \<and>
      count_sub ''<light type="area"
               co="0.0 0.0 5.0"
               strength="1 1 1"
               axisu="0.0 1.0 0.0"
               axisv="-1.0 0.0 0.0"
               sizeu="2.0"
               sizev="1.0"
               size="1"
               dir="0.0 0.0 1.0" />'' out = 1\<close>
    by (auto simp: str_tenths_values cross_def quarter_turn_z_def)
  from n f c d a show ?thesis by blast
qed

subsection \<open>Camera\<close>




subsection \<open>Mesh\<close>

lemma str_int_digits: "str_int 0 = ''0''" "str_int 1 = ''1''" "str_int 2 = ''2''" "str_int 3 = ''3''"
  by (simp_all add: str_int_def str_nat.simps digit_char_def)

text \<open>
  C8. For the mesh with the vertices \<open>(0, 0, 0)\<close>, \<open>(1, 0, 0)\<close>, \<open>(0, 1, 0)\<close> and
  the single face \<open>(0, 1, 2)\<close>, the text of \<^verbatim>\<open>write_object\<close> has one
  \<^verbatim>\<open>mesh\<close> element: its \<^verbatim>\<open>P\<close> lists the three coordinate triples,
  its \<^verbatim>\<open>nverts\<close> is the single entry \<^verbatim>\<open>3\<close> and its \<^verbatim>\<open>verts\<close> the
  single triple \<^verbatim>\<open>0 1 2\<close>.
\<close>

theorem write_object_triangle:
  fixes fstr :: "'a::{zero,one,ord} \<Rightarrow> string"
  assumes n: "CHR ''<'' \<notin> set (Name viewobj)"
    and f: "\<forall>x. CHR ''<'' \<notin> set (fstr x)"
    and c: "3 \<le> length color"
  shows \<open>\<exists>out. write_object fstr viewobj
            \<lparr>Topology = ([Vector 0 0 0, Vector 1 0 0, Vector 0 1 0], [[0, 1, 2]])\<rparr> color alpha = Inr out \<and>
     count_sub ''<mesh'' out = 1 \<and>
     count_sub
       (''<mesh P="'' @ fstr 0 @ '' '' @ fstr 0 @ '' '' @ fstr 0 @ ''  '' @
                       fstr 1 @ '' '' @ fstr 0 @ '' '' @ fstr 0 @ ''  '' @
                       fstr 0 @ '' '' @ fstr 1 @ '' '' @ fstr 0 @ ''"
              nverts="3"
              verts="0 1 2"/>'') out = 1\<close>
proof -
  have m: "list_all (\<lambda>v. 3 \<le> length v)
      (snd (Topology \<lparr>Topology = ([Vector 0 0 0, Vector 1 0 0, Vector 0 1 (0::'a)], [[0, 1, 2]])\<rparr>))"
    by simp
  from write_object_mesh_element [OF n f c m, of alpha] show ?thesis
    by (simp add: vec_text_def face_text_def str_int_digits)
qed

theorem write_object_triangle_witness:
  \<open>CHR ''<'' \<notin> set (Name \<lparr>Name = ''Box''\<rparr>) \<and> (\<forall>x. CHR ''<'' \<notin> set (str_tenths x)) \<and>
   3 \<le> length [1, 0, 0 :: real] \<and>
   (\<exists>out. write_object str_tenths \<lparr>Name = ''Box''\<rparr>
            \<lparr>Topology = ([Vector 0 0 0, Vector 1 0 0, Vector 0 1 0], [[0, 1, 2]])\<rparr> [1, 0, 0] 1 = Inr out \<and>
      count_sub ''<mesh'' out = 1 \<and>
      count_sub ''<mesh P="0.0 0.0 0.0  1.0 0.0 0.0  0.0 1.0 0.0"
              nverts="3"
              verts="0 1 2"/>'' out = 1)\<close>
proof -
  have n: "CHR ''<'' \<notin> set (Name \<lparr>Name = ''Box''\<rparr>)" by simp
  have f: "\<forall>x. CHR ''<'' \<notin> set (str_tenths x)" by (simp add: lt_notin_str_tenths)
  have c: "3 \<le> length [1, 0, 0 :: real]" by simp
  from write_object_triangle [OF n f c, of 1]
  have a: \<open>\<exists>out. write_object str_tenths \<lparr>Name = ''Box''\<rparr>
            \<lparr>Topology = ([Vector 0 0 0, Vector 1 0 0, Vector 0 1 0], [[0, 1, 2]])\<rparr> [1, 0, 0] 1 = Inr out \<and>
      count_sub ''<mesh'' out = 1 \<and>
      count_sub ''<mesh P="0.0 0.0 0.0  1.0 0.0 0.0  0.0 1.0 0.0"
              nverts="3"
              verts="0 1 2"/>'' out = 1\<close>
    by (simp add: str_tenths_values)
  from n f c a show ?thesis by blast
qed

lemma face_text_take: "3 \<le> length v \<Longrightarrow> face_text (take 3 v) = face_text v"
  by (simp add: face_text_def)

lemma write_object_truncated_faces:
  fixes fstr :: "'a::{one,ord} \<Rightarrow> string"
  assumes m: "list_all (\<lambda>v. 3 \<le> length v) (snd (Topology mesh))"
  shows "write_object fstr viewobj
           (mesh\<lparr>Topology := (fst (Topology mesh), map (take 3) (snd (Topology mesh)))\<rparr>) color alpha
         = write_object fstr viewobj mesh color alpha"
proof -
  define mesh' where
    "mesh' = mesh\<lparr>Topology := (fst (Topology mesh), map (take 3) (snd (Topology mesh)))\<rparr>"
  have ps: "fst (Topology mesh') = fst (Topology mesh)"
    and fs: "snd (Topology mesh') = map (take 3) (snd (Topology mesh))"
    by (simp_all add: mesh'_def)
  from m have 1: "list_all (\<lambda>v. 3 \<le> length v) (map (take 3) (snd (Topology mesh)))"
    by (simp add: list_all_iff)
  from m have 2: "map face_text (map (take 3) (snd (Topology mesh))) = map face_text (snd (Topology mesh))"
    by (simp add: list_all_iff face_text_take)
  have "write_object fstr viewobj mesh' color alpha = write_object fstr viewobj mesh color alpha"
    unfolding write_object_def points_comp faces_comp ps fs
    by (simp only: 1 m 2 if_True)
  then show ?thesis by (simp only: mesh'_def)
qed

text \<open>
  C10. For every mesh, \<^verbatim>\<open>write_object\<close> writes one \<^verbatim>\<open>nverts\<close> entry
  per face, each the constant \<^verbatim>\<open>3\<close>, and for each face its first three indices
  (\<open>face_text\<close>): cutting every face down to its first three indices leaves the
  result unchanged. A face with fewer than three indices makes the formatter fail with
  \<^verbatim>\<open>IndexError\<close>; no text is returned.
\<close>

theorem write_object_faces:
  fixes fstr :: "'a::{one,ord} \<Rightarrow> string"
  assumes n: "CHR ''<'' \<notin> set (Name viewobj)"
    and f: "\<forall>x. CHR ''<'' \<notin> set (fstr x)"
    and c: "3 \<le> length color"
  shows \<open>(list_all (\<lambda>v. 3 \<le> length v) (snd (Topology mesh)) \<longrightarrow>
            (\<exists>out. write_object fstr viewobj mesh color alpha = Inr out \<and>
               count_sub ''<mesh'' out = 1 \<and>
               count_sub
                 (''<mesh P="'' @ join ''  '' (map (vec_text fstr) (fst (Topology mesh))) @
               ''"\<newline>              nverts="'' @
               join ''  '' (replicate (length (snd (Topology mesh))) ''3'') @
               ''"\<newline>              verts="'' @
               join ''  '' (map face_text (snd (Topology mesh))) @ ''"/>'') out = 1) \<and>
            write_object fstr viewobj
                (mesh\<lparr>Topology := (fst (Topology mesh), map (take 3) (snd (Topology mesh)))\<rparr>) color alpha
              = write_object fstr viewobj mesh color alpha) \<and>
         (\<not> list_all (\<lambda>v. 3 \<le> length v) (snd (Topology mesh)) \<longrightarrow>
            write_object fstr viewobj mesh color alpha = Inl IndexError)\<close>
  using write_object_mesh_element [OF n f c] write_object_truncated_faces
    write_object_short_face
  by blast

theorem write_object_faces_witness:
  \<open>CHR ''<'' \<notin> set (Name \<lparr>Name = ''Box''\<rparr>) \<and> (\<forall>x. CHR ''<'' \<notin> set (str_tenths x)) \<and>
   3 \<le> length [1, 0, 0 :: real] \<and>
   (\<exists>out. write_object str_tenths \<lparr>Name = ''Box''\<rparr>
            \<lparr>Topology = (triangle, [[0, 1, 2, 3], [2, 3, 0, 1]])\<rparr> [1, 0, 0] 1 = Inr out \<and>
      count_sub ''<mesh P="0.0 0.0 0.0  1.0 0.0 0.0  0.0 1.0 0.0"
              nverts="3  3"
              verts="0 1 2  2 3 0"/>'' out = 1) \<and>
   write_object str_tenths \<lparr>Name = ''Box''\<rparr> \<lparr>Topology = (triangle, [[0, 1, 2], [0, 1]])\<rparr> [1, 0, 0] 1
     = Inl IndexError\<close>
proof -
  have n: "CHR ''<'' \<notin> set (Name \<lparr>Name = ''Box''\<rparr>)" by simp
  have f: "\<forall>x. CHR ''<'' \<notin> set (str_tenths x)" by (simp add: lt_notin_str_tenths)
  have c: "3 \<le> length [1, 0, 0 :: real]" by simp
  from write_object_faces [OF n f c, of "\<lparr>Topology = (triangle, [[0, 1, 2, 3], [2, 3, 0, 1]])\<rparr>" 1]
  have a: \<open>\<exists>out. write_object str_tenths \<lparr>Name = ''Box''\<rparr>
            \<lparr>Topology = (triangle, [[0, 1, 2, 3], [2, 3, 0, 1]])\<rparr> [1, 0, 0] 1 = Inr out \<and>
      count_sub ''<mesh P="0.0 0.0 0.0  1.0 0.0 0.0  0.0 1.0 0.0"
              nverts="3  3"
              verts="0 1 2  2 3 0"/>'' out = 1\<close>
    by (simp add: str_tenths_values triangle_def vec_text_def face_text_def str_int_digits)
       blast
  from write_object_faces [OF n f c, of "\<lparr>Topology = (triangle, [[0, 1, 2], [0, 1]])\<rparr>" 1]
  have b: "write_object str_tenths \<lparr>Name = ''Box''\<rparr> \<lparr>Topology = (triangle, [[0, 1, 2], [0, 1]])\<rparr> [1, 0, 0] 1
     = Inl IndexError"
    by simp
  from n f c a b show ?thesis by blast
qed

section \<open>Two texts in full\<close>

text \<open>
  The whole text for a camera turned a quarter about the Z axis, and for a half-opaque
  red triangle, with the sample number formatter.
\<close>

lemma write_camera_example:
  \<open>write_camera str_tenths (Vector 0 0 5) \<lparr>Angle = pi / 2, Axis = Vector 0 0 1\<rparr>
       (Vector 0 1 0) (Vector 0 0 0) ''Cam'' = Inr ''
    <!-- Generated by FreeCAD - Camera 'Cam' -->
    <transform rotate="90.0 0.0 0.0 1.0"
               translate="0.0 0.0 5.0"
               scale="1 1 -1">
        <camera type="perspective"/>
    </transform>''\<close>
  by (simp add: write_camera_text str_tenths_values degrees_def)

lemma write_object_example:
  \<open>write_object str_tenths \<lparr>Name = ''Box''\<rparr>
       \<lparr>Topology = ([Vector 0 0 0, Vector 1 0 0, Vector 0 1 0], [[0, 1, 2]])\<rparr> [1, 0, 0] (1 / 2) = Inr ''
    <!-- Generated by FreeCAD - Object 'Box' -->
    <shader name="Box_mat">
        <diffuse_bsdf name="Box_bsdf" color="1.0, 0.0, 0.0"/>
        <transparent_bsdf name="Box_trans" color="1.0, 1.0, 1.0"/>
        <mix_closure name="Box_mix" fac="0.5"/>
        <connect from="Box_trans bsdf"  to="Box_mix closure1"/>
        <connect from="Box_bsdf bsdf"   to="Box_mix closure2"/>
        <connect from="Box_mix closure" to="output surface"/>
    </shader>
    <state shader="Box_mat">
        <mesh P="0.0 0.0 0.0  1.0 0.0 0.0  0.0 1.0 0.0"
              nverts="3"
              verts="0 1 2"/>
    </state>\<newline>''\<close>
  by (simp add: write_object_text_mix str_tenths_values vec_text_def face_text_def str_int_digits)

end
